theory Spec2Isabelle
  imports Complex_Main "HOL-Library.Sublist"
begin

section \<open>Values of the host language\<close>

text \<open>
  \<^verbatim>\<open>src/utils/updateWebsiteMaster.ts\<close> handles values of type \<^verbatim>\<open>any\<close>: the parsed
  response body, the parsed file, the update payload. They are modelled as JSON data plus
  \<^verbatim>\<open>undefined\<close>. Numbers are finite; an object is an association list that holds each
  key once.
\<close>

datatype js =
    JUndefined
  | JNull
  | JBool bool
  | JNum rat
  | JStr string
  | JArr "js list"
  | JObj "(string \<times> js) list"

text \<open>
  A thrown value. \<open>ErrorInstance m\<close> is a value for which \<^verbatim>\<open>instanceof Error\<close> holds,
  with \<^verbatim>\<open>.message\<close> equal to \<open>m\<close>; \<open>NonError v\<close> is any other thrown value \<open>v\<close>
  (JavaScript can throw every value, also an object that has a \<^verbatim>\<open>message\<close> property
  without being an \<^verbatim>\<open>Error\<close>).
\<close>

datatype thrown = ErrorInstance string | NonError js

text \<open>Truthiness, as \<^verbatim>\<open>if (x)\<close>, \<^verbatim>\<open>!x\<close> and \<^verbatim>\<open>x || y\<close> test it.\<close>

fun truthy :: "js \<Rightarrow> bool" where
  "truthy JUndefined = False"
| "truthy JNull = False"
| "truthy (JBool b) = b"
| "truthy (JNum q) = (q \<noteq> 0)"
| "truthy (JStr s) = (s \<noteq> [])"
| "truthy (JArr xs) = True"
| "truthy (JObj kvs) = True"

text \<open>\<^verbatim>\<open>a || b\<close>: the left operand when it is truthy, the right one otherwise.\<close>

definition js_or :: "js \<Rightarrow> js \<Rightarrow> js" where
  "js_or a b = (if truthy a then a else b)"

definition quote :: string where
  "quote = [CHR 0x27]"

text \<open>
  Reading a property \<^verbatim>\<open>v.k\<close>. On \<^verbatim>\<open>null\<close> and \<^verbatim>\<open>undefined\<close> the read throws a
  \<^verbatim>\<open>TypeError\<close> (an \<^verbatim>\<open>Error\<close> instance; the message is the wording of V8). On an
  object it gives the value stored under the key, or \<^verbatim>\<open>undefined\<close>. On booleans,
  numbers, strings and arrays it gives \<^verbatim>\<open>undefined\<close>: this holds for the names the
  source reads (\<^verbatim>\<open>error\<close>, \<^verbatim>\<open>message\<close>, \<^verbatim>\<open>websiteId\<close>, \<^verbatim>\<open>website\<close>, \<^verbatim>\<open>_id\<close>), none
  of which is defined on a built-in prototype.
\<close>

definition type_error_read :: "string \<Rightarrow> string \<Rightarrow> thrown" where
  "type_error_read what k =
     ErrorInstance (''Cannot read properties of '' @ what @ '' (reading '' @ quote @ k @ quote @ '')'')"

fun get_prop :: "js \<Rightarrow> string \<Rightarrow> thrown + js" where
  "get_prop JUndefined k = Inl (type_error_read ''undefined'' k)"
| "get_prop JNull k = Inl (type_error_read ''null'' k)"
| "get_prop (JObj kvs) k = Inr (case map_of kvs k of None \<Rightarrow> JUndefined | Some v \<Rightarrow> v)"
| "get_prop v k = Inr JUndefined"

text \<open>
  \<^verbatim>\<open>JSON.stringify\<close>, represented by the JSON value that the produced text denotes (what
  the receiving service parses): a property whose value is \<^verbatim>\<open>undefined\<close> is left out, an
  \<^verbatim>\<open>undefined\<close> array element becomes \<^verbatim>\<open>null\<close>, and \<^verbatim>\<open>undefined\<close> itself gives no
  text at all (\<open>None\<close>).
\<close>

fun JSON_stringify :: "js \<Rightarrow> js option"
  and stringify_elems :: "js list \<Rightarrow> js list"
  and stringify_props :: "(string \<times> js) list \<Rightarrow> (string \<times> js) list" where
  "JSON_stringify JUndefined = None"
| "JSON_stringify JNull = Some JNull"
| "JSON_stringify (JBool b) = Some (JBool b)"
| "JSON_stringify (JNum q) = Some (JNum q)"
| "JSON_stringify (JStr s) = Some (JStr s)"
| "JSON_stringify (JArr xs) = Some (JArr (stringify_elems xs))"
| "JSON_stringify (JObj kvs) = Some (JObj (stringify_props kvs))"
| "stringify_elems [] = []"
| "stringify_elems (x # xs) =
     (case JSON_stringify x of None \<Rightarrow> JNull | Some v \<Rightarrow> v) # stringify_elems xs"
| "stringify_props [] = []"
| "stringify_props ((k, v) # kvs) =
     (case JSON_stringify v of None \<Rightarrow> stringify_props kvs
      | Some w \<Rightarrow> (k, w) # stringify_props kvs)"

text \<open>A number in a template literal: the decimal digits of a natural number.\<close>

definition digit_char :: "nat \<Rightarrow> char" where
  "digit_char d = ''0123456789'' ! d"

function show_nat :: "nat \<Rightarrow> string" where
  "show_nat n = (if n < 10 then [digit_char n] else show_nat (n div 10) @ [digit_char (n mod 10)])"
  by pat_completeness auto
termination
  by (relation "measure (\<lambda>n. n)") auto

declare show_nat.simps [simp del]

text \<open>\<^verbatim>\<open>String.prototype.includes\<close>: the second string occurs in the first.\<close>

fun str_includes :: "string \<Rightarrow> string \<Rightarrow> bool" where
  "str_includes [] sub = (sub = [])"
| "str_includes (c # cs) sub = (prefix sub (c # cs) \<or> str_includes cs sub)"

section \<open>The host environment\<close>

text \<open>
  What the program receives from its host, taken as parameters: the browsing context, the
  build-time configuration, \<^verbatim>\<open>fetch\<close>, the \<^verbatim>\<open>fs/promises\<close> module and \<^verbatim>\<open>JSON.parse\<close>.
  A call either throws (\<open>Inl\<close>) or returns (\<open>Inr\<close>).
\<close>

text \<open>
  The two arguments of \<^verbatim>\<open>fetch\<close>: the address, and the \<^verbatim>\<open>method\<close>, \<^verbatim>\<open>headers\<close> and
  \<^verbatim>\<open>body\<close> of the second argument. The body is the value that its JSON text denotes.
\<close>

record request =
  url :: string
  http_method :: string
  headers :: "(string \<times> string) list"
  body :: "js option"

text \<open>
  A response: \<open>json\<close> is the outcome of the method \<^verbatim>\<open>response.json()\<close>, which throws when
  the body cannot be read or is not JSON text. \<^verbatim>\<open>response.ok\<close> is, by the Fetch standard,
  a status in the range 200 to 299.
\<close>

record response =
  status :: nat
  statusText :: string
  json :: "thrown + js"

definition ok :: "response \<Rightarrow> bool" where
  "ok r = (200 \<le> status r \<and> status r \<le> 299)"

record location =
  origin :: string

record window =
  location :: "location option"

text \<open>
  \<open>window env = None\<close> stands for \<^verbatim>\<open>typeof window === 'undefined'\<close>, and a window whose
  \<open>location\<close> is \<open>None\<close> for a falsy \<^verbatim>\<open>window.location\<close>. \<open>NEXT_PUBLIC_APP_URL\<close> is
  \<^verbatim>\<open>process.env.NEXT_PUBLIC_APP_URL\<close>, a string or \<^verbatim>\<open>undefined\<close>: the expression is
  replaced by its value when the Next.js application is built, and is read from the
  \<^verbatim>\<open>process\<close> global under Node.js, so reading it does not throw; a host that has
  neither is not modelled. \<open>import_fs\<close> is the outcome of
  \<^verbatim>\<open>import('fs/promises')\<close>: it throws where the module does not exist, and gives
  \<^verbatim>\<open>readFile\<close> (at encoding utf-8) otherwise.
\<close>

record env =
  window :: "window option"
  NEXT_PUBLIC_APP_URL :: "string option"
  fetch :: "request \<Rightarrow> thrown + response"
  import_fs :: "thrown + (string \<Rightarrow> thrown + string)"
  JSON_parse :: "string \<Rightarrow> thrown + js"

section \<open>Effects\<close>

text \<open>
  An asynchronous function is a computation on the list of requests handed to \<^verbatim>\<open>fetch\<close>
  so far: it returns the extended list, and either the thrown value with which its promise
  rejects or the value with which it resolves. Output to the console is left out.
\<close>

type_synonym 'a io = "request list \<Rightarrow> request list \<times> (thrown + 'a)"

definition io_return :: "'a \<Rightarrow> 'a io" where
  "io_return x = (\<lambda>reqs. (reqs, Inr x))"

definition io_lift :: "thrown + 'a \<Rightarrow> 'a io" where
  "io_lift c = (\<lambda>reqs. (reqs, c))"

definition io_bind :: "'a io \<Rightarrow> ('a \<Rightarrow> 'b io) \<Rightarrow> 'b io" where
  "io_bind m f =
     (\<lambda>reqs. case m reqs of
        (reqs', Inl t) \<Rightarrow> (reqs', Inl t)
      | (reqs', Inr x) \<Rightarrow> f x reqs')"

text \<open>\<^verbatim>\<open>try { m } catch (error) { h error }\<close>\<close>

definition io_catch :: "'a io \<Rightarrow> (thrown \<Rightarrow> 'a io) \<Rightarrow> 'a io" where
  "io_catch m h =
     (\<lambda>reqs. case m reqs of
        (reqs', Inl t) \<Rightarrow> h t reqs'
      | (reqs', Inr x) \<Rightarrow> (reqs', Inr x))"

text \<open>\<^verbatim>\<open>await fetch(...)\<close>: the request is recorded, then the host answers.\<close>

definition io_fetch :: "env \<Rightarrow> request \<Rightarrow> response io" where
  "io_fetch env req = (\<lambda>reqs. (reqs @ [req], fetch env req))"

section \<open>updateWebsiteMaster\<close>

record options =
  sendEmailNotification :: "bool option"
  apiUrl :: "string option"

text \<open>\<^verbatim>\<open>UpdateWebsiteMasterResult\<close>; \<open>None\<close> is a key that the returned object does not have.\<close>

record result =
  success :: bool
  message :: "js option"
  websiteId :: "js option"
  website :: "js option"
  error :: "js option"

definition FIXED_SUFFIX :: string where
  "FIXED_SUFFIX = ''/api/userActions/update-website''"

text \<open>\<^verbatim>\<open>apiUrl.replace(/\/$/, '')\<close>: one slash at the very end of the string is removed.\<close>

definition strip_trailing_slash :: "string \<Rightarrow> string" where
  "strip_trailing_slash s = (if s \<noteq> [] \<and> last s = CHR ''/'' then butlast s else s)"

text \<open>
  A string that may be \<^verbatim>\<open>undefined\<close>, as a condition: \<^verbatim>\<open>undefined\<close> and the empty
  string are falsy.
\<close>

definition truthy_string :: "string option \<Rightarrow> string option" where
  "truthy_string x = (case x of None \<Rightarrow> None | Some s \<Rightarrow> if s \<noteq> [] then Some s else None)"

text \<open>\<^verbatim>\<open>typeof window !== 'undefined' && window.location\<close>, and the origin read under it.\<close>

definition browsing_origin :: "env \<Rightarrow> string option" where
  "browsing_origin env =
     (case window env of
        None \<Rightarrow> None
      | Some w \<Rightarrow> (case location w of None \<Rightarrow> None | Some l \<Rightarrow> Some (origin l)))"

text \<open>Lines 68 to 78: the endpoint, an \<^verbatim>\<open>if\<close> / \<^verbatim>\<open>else if\<close> chain over the default.\<close>

definition endpoint :: "env \<Rightarrow> string option \<Rightarrow> string" where
  "endpoint env apiUrl' =
     (case truthy_string apiUrl' of
        Some a \<Rightarrow> strip_trailing_slash a @ FIXED_SUFFIX
      | None \<Rightarrow>
          (case browsing_origin env of
             Some orig \<Rightarrow> orig @ FIXED_SUFFIX
           | None \<Rightarrow>
               (case truthy_string (NEXT_PUBLIC_APP_URL env) of
                  Some b \<Rightarrow> b @ FIXED_SUFFIX
                | None \<Rightarrow> FIXED_SUFFIX)))"

text \<open>Lines 81 to 91: the request handed to \<^verbatim>\<open>fetch\<close>.\<close>

definition update_request :: "env \<Rightarrow> js \<Rightarrow> js \<Rightarrow> options \<Rightarrow> request" where
  "update_request env websiteId' updates opts =
     (let sendEmailNotification' =
            (case sendEmailNotification opts of None \<Rightarrow> True | Some b \<Rightarrow> b)
      in \<lparr>url = endpoint env (apiUrl opts),
          http_method = ''PUT'',
          headers = [(''Content-Type'', ''application/json'')],
          body = JSON_stringify
                   (JObj [(''websiteId'', websiteId'),
                          (''updates'', updates),
                          (''sendEmailNotification'', JBool sendEmailNotification')])\<rparr>)"

text \<open>
  \<^verbatim>\<open>error instanceof Error ? error.message : fallback\<close>, the test of both \<^verbatim>\<open>catch\<close>
  blocks.
\<close>

definition caught_message :: "string \<Rightarrow> thrown \<Rightarrow> string" where
  "caught_message fallback t = (case t of ErrorInstance m \<Rightarrow> m | NonError v \<Rightarrow> fallback)"

text \<open>The template literal \<^verbatim>\<open>`HTTP ${response.status}: ${response.statusText}`\<close>.\<close>

definition status_line :: "response \<Rightarrow> string" where
  "status_line r = ''HTTP '' @ show_nat (status r) @ '': '' @ statusText r"

text \<open>Lines 95 to 101 and 103 to 108: the two returns of the \<^verbatim>\<open>try\<close> block.\<close>

definition rejected :: "js \<Rightarrow> response \<Rightarrow> js \<Rightarrow> result io" where
  "rejected websiteId' r data =
     io_bind (io_lift (get_prop data ''error''))
       (\<lambda>e. io_return
          \<lparr>success = False,
           message = None,
           websiteId = Some websiteId',
           website = None,
           error = Some (js_or e (JStr (status_line r)))\<rparr>)"

definition accepted :: "js \<Rightarrow> result io" where
  "accepted data =
     io_bind (io_lift (get_prop data ''message''))
       (\<lambda>m. io_bind (io_lift (get_prop data ''websiteId''))
          (\<lambda>i. io_bind (io_lift (get_prop data ''website''))
             (\<lambda>w. io_return
                \<lparr>success = True,
                 message = Some (js_or m (JStr ''Website updated successfully'')),
                 websiteId = Some i,
                 website = Some w,
                 error = None\<rparr>)))"

text \<open>
  Lines 58 to 117: the \<^verbatim>\<open>try\<close> block, and the function with its \<^verbatim>\<open>catch\<close>. The declared
  type of \<^verbatim>\<open>websiteId\<close> is \<^verbatim>\<open>string\<close> and that of \<^verbatim>\<open>updates\<close> an object;
  \<^verbatim>\<open>updateWebsiteMasterFromFile\<close> passes values of type \<^verbatim>\<open>any\<close>.
\<close>

definition update_try :: "env \<Rightarrow> js \<Rightarrow> js \<Rightarrow> options \<Rightarrow> result io" where
  "update_try env websiteId' updates opts =
     io_bind (io_fetch env (update_request env websiteId' updates opts))
       (\<lambda>r. io_bind (io_lift (json r))
          (\<lambda>data. if \<not> ok r then rejected websiteId' r data else accepted data))"

definition updateWebsiteMaster :: "env \<Rightarrow> js \<Rightarrow> js \<Rightarrow> options \<Rightarrow> result io" where
  "updateWebsiteMaster env websiteId' updates opts =
     io_catch (update_try env websiteId' updates opts)
       (\<lambda>t. io_return
          \<lparr>success = False,
           message = None,
           websiteId = Some websiteId',
           website = None,
           error = Some (JStr (caught_message ''Unknown error occurred'' t))\<rparr>)"

section \<open>updateWebsiteMasterFromFile\<close>

definition default_path :: string where
  "default_path = ''./src/data/websiteData.json''"

definition missing_id :: result where
  "missing_id =
     \<lparr>success = False,
      message = None,
      websiteId = None,
      website = None,
      error = Some (JStr (''websiteData.json does not contain _id field. '' @
                          ''Make sure the website has been saved to the database first.''))\<rparr>"

text \<open>
  Lines 133 to 159: the \<^verbatim>\<open>try\<close> block, and the function with its \<^verbatim>\<open>catch\<close>. \<open>None\<close> for
  the path is a call that leaves the argument out.
\<close>

definition from_file_try :: "env \<Rightarrow> string option \<Rightarrow> options \<Rightarrow> result io" where
  "from_file_try env websiteDataPath opts =
     io_bind (io_lift (import_fs env))
       (\<lambda>readFile. io_bind
          (io_lift (readFile (case websiteDataPath of None \<Rightarrow> default_path | Some p \<Rightarrow> p)))
          (\<lambda>websiteDataContent. io_bind (io_lift (JSON_parse env websiteDataContent))
             (\<lambda>websiteMaster. io_bind (io_lift (get_prop websiteMaster ''_id''))
                (\<lambda>i. if \<not> truthy i then io_return missing_id
                     else updateWebsiteMaster env i websiteMaster opts))))"

definition updateWebsiteMasterFromFile :: "env \<Rightarrow> string option \<Rightarrow> options \<Rightarrow> result io" where
  "updateWebsiteMasterFromFile env websiteDataPath opts =
     io_catch (from_file_try env websiteDataPath opts)
       (\<lambda>t. io_return
          \<lparr>success = False,
           message = None,
           websiteId = None,
           website = None,
           error = Some (JStr (caught_message ''Failed to read websiteData.json'' t))\<rparr>)"

section \<open>The specification's wording\<close>

text \<open>
  The endpoint as the specification words it: an override that is provided is used, then
  the origin of the browsing context, then the configured base URL, then the suffix alone.
\<close>

definition spec_endpoint :: "env \<Rightarrow> string option \<Rightarrow> string" where
  "spec_endpoint env override =
     (case override of
        Some a \<Rightarrow> strip_trailing_slash a @ FIXED_SUFFIX
      | None \<Rightarrow>
          (case browsing_origin env of
             Some orig \<Rightarrow> orig @ FIXED_SUFFIX
           | None \<Rightarrow>
               (case NEXT_PUBLIC_APP_URL env of
                  Some b \<Rightarrow> b @ FIXED_SUFFIX
                | None \<Rightarrow> FIXED_SUFFIX)))"

text \<open>
  The error of a rejected update as the specification words it: the \<^verbatim>\<open>error\<close> field of
  the parsed body if present, else the string made of status code and status text.
\<close>

definition spec_rejection_error :: "response \<Rightarrow> js \<Rightarrow> js" where
  "spec_rejection_error r data =
     (case data of
        JObj kvs \<Rightarrow> (case map_of kvs ''error'' of Some v \<Rightarrow> v | None \<Rightarrow> JStr (status_line r))
      | _ \<Rightarrow> JStr (status_line r))"

text \<open>
  The error of a caught exception as the specification words it: the message that the
  thrown value carries, or the fallback if it carries none. \<open>carried_message\<close> is the
  string found under \<^verbatim>\<open>.message\<close> of the thrown value.
\<close>

definition carried_message :: "thrown \<Rightarrow> string option" where
  "carried_message t =
     (case t of
        ErrorInstance m \<Rightarrow> Some m
      | NonError v \<Rightarrow>
          (case v of
             JObj kvs \<Rightarrow> (case map_of kvs ''message'' of Some (JStr m) \<Rightarrow> Some m | _ \<Rightarrow> None)
           | _ \<Rightarrow> None))"

definition spec_caught_message :: "string \<Rightarrow> thrown \<Rightarrow> string" where
  "spec_caught_message fallback t =
     (case carried_message t of Some m \<Rightarrow> m | None \<Rightarrow> fallback)"

section \<open>Simulated hosts\<close>

text \<open>
  Hosts for the examples: a \<^verbatim>\<open>fetch\<close> that answers every request with one response or
  throws one value, a file system that holds one file, and a parser that knows the texts
  of a table and rejects every other text.
\<close>

definition no_options :: options where
  "no_options = \<lparr>sendEmailNotification = None, apiUrl = None\<rparr>"

definition answers :: "nat \<Rightarrow> string \<Rightarrow> thrown + js \<Rightarrow> request \<Rightarrow> thrown + response" where
  "answers st txt j req = Inr \<lparr>status = st, statusText = txt, json = j\<rparr>"

definition throws :: "thrown \<Rightarrow> request \<Rightarrow> thrown + response" where
  "throws t req = Inl t"

text \<open>
  \<^verbatim>\<open>response.json()\<close> on a body of zero bytes: the empty text is not JSON, the call throws
  a \<^verbatim>\<open>SyntaxError\<close> (an \<^verbatim>\<open>Error\<close> instance; the message is the wording of V8).
\<close>

definition json_of_empty_body :: "thrown + js" where
  "json_of_empty_body = Inl (ErrorInstance ''Unexpected end of JSON input'')"

definition one_file :: "string \<Rightarrow> string \<Rightarrow> string \<Rightarrow> thrown + string" where
  "one_file path content p =
     (if p = path then Inr content
      else Inl (ErrorInstance (''ENOENT: no such file or directory, open '' @ quote @ p @ quote)))"

definition parse_known :: "(string \<times> js) list \<Rightarrow> string \<Rightarrow> thrown + js" where
  "parse_known table s =
     (case map_of table s of
        Some v \<Rightarrow> Inr v
      | None \<Rightarrow> Inl (ErrorInstance ''Unexpected end of JSON input''))"

definition server_host ::
  "string option \<Rightarrow> (request \<Rightarrow> thrown + response) \<Rightarrow> string \<Rightarrow> js \<Rightarrow> env" where
  "server_host base fetch' content doc =
     \<lparr>window = None,
      NEXT_PUBLIC_APP_URL = base,
      fetch = fetch',
      import_fs = Inr (one_file default_path content),
      JSON_parse = parse_known [(content, doc)]\<rparr>"

definition browser_host :: "string \<Rightarrow> (request \<Rightarrow> thrown + response) \<Rightarrow> env" where
  "browser_host orig fetch' =
     \<lparr>window = Some \<lparr>location = Some \<lparr>origin = orig\<rparr>\<rparr>,
      NEXT_PUBLIC_APP_URL = None,
      fetch = fetch',
      import_fs = Inl (ErrorInstance ''Cannot find module fs/promises''),
      JSON_parse = parse_known []\<rparr>"

text \<open>
  Three files for the examples, each with the document that its text denotes: one without
  an identifier, one with the identifier \<^verbatim>\<open>abc123\<close>, one whose identifier is the empty
  string.
\<close>

definition quoted :: "string \<Rightarrow> string" where
  "quoted s = [CHR 0x22] @ s @ [CHR 0x22]"

definition text_without_id :: string where
  "text_without_id = ''{'' @ quoted ''websiteName'' @ '': '' @ quoted ''Demo'' @ ''}''"

definition doc_without_id :: js where
  "doc_without_id = JObj [(''websiteName'', JStr ''Demo'')]"

definition text_with_id :: string where
  "text_with_id =
     ''{'' @ quoted ''_id'' @ '': '' @ quoted ''abc123'' @ '', '' @
     quoted ''websiteName'' @ '': '' @ quoted ''Demo'' @ ''}''"

definition doc_with_id :: js where
  "doc_with_id = JObj [(''_id'', JStr ''abc123''), (''websiteName'', JStr ''Demo'')]"

definition text_with_empty_id :: string where
  "text_with_empty_id = ''{'' @ quoted ''_id'' @ '': '' @ quoted [] @ ''}''"

definition doc_with_empty_id :: js where
  "doc_with_empty_id = JObj [(''_id'', JStr [])]"

section \<open>Auxiliary facts\<close>

lemmas io_defs = io_catch_def io_bind_def io_fetch_def io_lift_def io_return_def

lemmas update_defs = updateWebsiteMaster_def update_try_def rejected_def accepted_def

lemmas host_defs = server_host_def browser_host_def answers_def throws_def no_options_def
  one_file_def parse_known_def default_path_def

lemmas request_defs = update_request_def endpoint_def truthy_string_def browsing_origin_def
  FIXED_SUFFIX_def strip_trailing_slash_def

text \<open>\<open>str_includes\<close> decides the contiguous-sublist relation of the library.\<close>

lemma str_includes_sublist: "str_includes s sub \<longleftrightarrow> sublist sub s"
  by (induction s) (auto simp: sublist_Cons_right)

text \<open>\<open>show_nat\<close> writes the decimal digits: reading them back gives the number.\<close>

lemma digit_char_code: "d < 10 \<Longrightarrow> of_char (digit_char d) = 48 + d"
  unfolding digit_char_def
  by (cases d rule: nat.exhaust) (auto simp: less_Suc_eq numeral_eq_Suc nth_Cons split: nat.splits)

lemma show_nat_value: "foldl (\<lambda>a c. 10 * a + (of_char c - 48)) 0 (show_nat n) = n"
proof (induction n rule: show_nat.induct)
  case (1 n)
  show ?case
  proof (cases "n < 10")
    case True
    then show ?thesis by (subst show_nat.simps) (simp add: digit_char_code)
  next
    case False
    with 1 show ?thesis by (subst show_nat.simps) (simp add: digit_char_code)
  qed
qed

lemma show_nat_500: "show_nat 500 = ''500''"
  by (simp add: show_nat.simps digit_char_def)

lemma status_line_500: "status r = 500 \<Longrightarrow> str_includes (status_line r) ''500''"
  unfolding str_includes_sublist status_line_def sublist_def
  by (metis show_nat_500)

lemma strip_trailing_slash_snoc: "strip_trailing_slash (s @ ''/'') = s"
  by (simp add: strip_trailing_slash_def)

lemma strip_trailing_slash_other: "s = [] \<or> last s \<noteq> CHR ''/'' \<Longrightarrow> strip_trailing_slash s = s"
  by (auto simp add: strip_trailing_slash_def)

text \<open>Reading a property throws on \<^verbatim>\<open>null\<close> and \<^verbatim>\<open>undefined\<close> only.\<close>

lemma get_prop_returns: "v \<noteq> JNull \<Longrightarrow> v \<noteq> JUndefined \<Longrightarrow> \<exists>x. get_prop v k = Inr x"
  by (cases v) simp_all

lemma get_prop_throws: "get_prop v k = Inl t \<Longrightarrow> v = JNull \<or> v = JUndefined"
  by (cases v) simp_all

subsection \<open>The paths of updateWebsiteMaster\<close>

lemma update_issues_one_request:
  "fst (updateWebsiteMaster env w u opts reqs) = reqs @ [update_request env w u opts]"
  by (simp add: update_defs io_defs split: sum.splits prod.splits)

lemma update_returns:
  "\<exists>r. snd (updateWebsiteMaster env w u opts reqs) = Inr r \<and> (success r \<longleftrightarrow> error r = None)"
  by (auto simp add: update_defs io_defs split: sum.splits prod.splits)

lemma update_when_fetch_throws:
  assumes "fetch env (update_request env w u opts) = Inl t"
  shows "updateWebsiteMaster env w u opts reqs =
    (reqs @ [update_request env w u opts],
     Inr \<lparr>success = False, message = None, websiteId = Some w, website = None,
          error = Some (JStr (caught_message ''Unknown error occurred'' t))\<rparr>)"
  using assms by (simp add: update_defs io_defs)

lemma update_when_json_throws:
  assumes "fetch env (update_request env w u opts) = Inr r" and "json r = Inl t"
  shows "updateWebsiteMaster env w u opts reqs =
    (reqs @ [update_request env w u opts],
     Inr \<lparr>success = False, message = None, websiteId = Some w, website = None,
          error = Some (JStr (caught_message ''Unknown error occurred'' t))\<rparr>)"
  using assms by (simp add: update_defs io_defs)

lemma update_when_rejected:
  assumes "fetch env (update_request env w u opts) = Inr r" and "json r = Inr data"
    and "\<not> ok r" and "get_prop data ''error'' = Inr e"
  shows "updateWebsiteMaster env w u opts reqs =
    (reqs @ [update_request env w u opts],
     Inr \<lparr>success = False, message = None, websiteId = Some w, website = None,
          error = Some (if truthy e then e else JStr (status_line r))\<rparr>)"
  using assms by (simp add: update_defs io_defs js_or_def)

lemma update_when_accepted:
  assumes "fetch env (update_request env w u opts) = Inr r" and "json r = Inr data"
    and "ok r" and "get_prop data ''message'' = Inr m"
    and "get_prop data ''websiteId'' = Inr i" and "get_prop data ''website'' = Inr s"
  shows "updateWebsiteMaster env w u opts reqs =
    (reqs @ [update_request env w u opts],
     Inr \<lparr>success = True,
          message = Some (if truthy m then m else JStr ''Website updated successfully''),
          websiteId = Some i, website = Some s, error = None\<rparr>)"
  using assms by (simp add: update_defs io_defs js_or_def)

lemma update_when_read_throws:
  assumes "fetch env (update_request env w u opts) = Inr r" and "json r = Inr data"
    and "get_prop data k = Inl t"
  shows "\<exists>t'. updateWebsiteMaster env w u opts reqs =
    (reqs @ [update_request env w u opts],
     Inr \<lparr>success = False, message = None, websiteId = Some w, website = None,
          error = Some (JStr (caught_message ''Unknown error occurred'' t'))\<rparr>)
     \<and> (t' = type_error_read ''null'' ''error'' \<or> t' = type_error_read ''null'' ''message''
        \<or> t' = type_error_read ''undefined'' ''error'' \<or> t' = type_error_read ''undefined'' ''message'')"
  using get_prop_throws [OF assms(3)] assms(1,2)
  by (auto simp add: update_defs io_defs)

subsection \<open>The paths of updateWebsiteMasterFromFile\<close>




lemma from_file_when_parsed:
  assumes "import_fs env = Inr readFile"
    and "readFile (case p of None \<Rightarrow> default_path | Some q \<Rightarrow> q) = Inr content"
    and "JSON_parse env content = Inr doc"
    and "get_prop doc ''_id'' = Inr i"
  shows "updateWebsiteMasterFromFile env p opts reqs =
    (if \<not> truthy i then (reqs, Inr missing_id) else updateWebsiteMaster env i doc opts reqs)"
proof (cases "truthy i")
  case False
  with assms show ?thesis
    by (simp add: updateWebsiteMasterFromFile_def from_file_try_def io_defs)
next
  case True
  obtain r where r: "updateWebsiteMaster env i doc opts reqs = (reqs @ [update_request env i doc opts], Inr r)"
    using update_issues_one_request [of env i doc opts reqs] update_returns [of env i doc opts reqs]
    by (metis prod.collapse)
  with True assms show ?thesis
    by (simp add: updateWebsiteMasterFromFile_def from_file_try_def io_defs)
qed

section \<open>The claims\<close>

subsection \<open>C1\<close>



subsection \<open>C2\<close>

text \<open>
  C2, as stated, fails: an override that is the empty string is given and is not used. In
  a browsing context at \<^verbatim>\<open>https://example.com\<close> the call goes to that origin, where the
  claim's rule gives the suffix alone.
\<close>

theorem empty_override_counterexample:
  "map url (fst (updateWebsiteMaster (browser_host ''https://example.com'' (throws (NonError JUndefined)))
       (JStr ''abc123'') (JObj []) \<lparr>sendEmailNotification = None, apiUrl = Some ''''\<rparr> []))
     = [''https://example.com/api/userActions/update-website'']
   \<and> spec_endpoint (browser_host ''https://example.com'' (throws (NonError JUndefined))) (Some '''')
     = ''/api/userActions/update-website''"
  by (simp add: update_issues_one_request request_defs spec_endpoint_def host_defs)

text \<open>
  C2, amended. Every call hands exactly one request to \<open>fetch\<close>, and its address follows the
  precedence of the specification with an empty override counted as no override: a
  non-empty override with one trailing slash removed, then the origin of the browsing
  context, then the configured base URL, then the suffix alone.
\<close>

theorem endpoint_precedence:
  "\<exists>req. fst (updateWebsiteMaster env websiteId' updates opts reqs) = reqs @ [req]
     \<and> url req = spec_endpoint env (if apiUrl opts = Some [] then None else apiUrl opts)"
proof -
  have "url (update_request env websiteId' updates opts)
      = spec_endpoint env (if apiUrl opts = Some [] then None else apiUrl opts)"
    by (simp add: update_request_def endpoint_def spec_endpoint_def truthy_string_def Let_def
        split: option.splits)
  then show ?thesis
    using update_issues_one_request [of env websiteId' updates opts reqs] by blast
qed

theorem endpoint_precedence_witness:
  "\<exists>req. fst (updateWebsiteMaster (browser_host ''https://example.com'' (throws (NonError JUndefined)))
       (JStr ''abc123'') (JObj [])
       \<lparr>sendEmailNotification = None, apiUrl = Some ''https://api.example.com/''\<rparr> []) = [req]
     \<and> url req = ''https://api.example.com/api/userActions/update-website''"
  using endpoint_precedence [of "browser_host ''https://example.com'' (throws (NonError JUndefined))"
      "JStr ''abc123''" "JObj []"
      "\<lparr>sendEmailNotification = None, apiUrl = Some ''https://api.example.com/''\<rparr>" "[]"]
  by (simp add: spec_endpoint_def strip_trailing_slash_def FIXED_SUFFIX_def)

subsection \<open>C3\<close>

text \<open>
  C3, as stated, fails: on a 404 response whose body is \<^verbatim>\<open>{"error": ""}\<close> the field is
  present, and the error of the result is the status string, not the field.
\<close>

theorem present_error_counterexample:
  "snd (updateWebsiteMaster
       (browser_host ''https://example.com''
          (answers 404 ''Not Found'' (Inr (JObj [(''error'', JStr '''')]))))
       (JStr ''abc123'') (JObj []) no_options [])
     = Inr \<lparr>success = False, message = None, websiteId = Some (JStr ''abc123''), website = None,
            error = Some (JStr ''HTTP 404: Not Found'')\<rparr>
   \<and> spec_rejection_error
       \<lparr>status = 404, statusText = ''Not Found'', json = Inr (JObj [(''error'', JStr '''')])\<rparr>
       (JObj [(''error'', JStr '''')])
     = JStr ''''"
  by (simp add: update_defs io_defs js_or_def ok_def status_line_def show_nat.simps
      digit_char_def host_defs spec_rejection_error_def)

text \<open>
  C3, amended. When the status is outside 200 to 299 and the body parses to a value from
  which the \<^verbatim>\<open>error\<close> field can be read (every JSON value but \<^verbatim>\<open>null\<close>), the result is a
  failure whose error is that field if it is truthy and the string made of status code and
  status text otherwise, and whose identifier is the one passed in.
\<close>

theorem rejected_update_error:
  assumes "fetch env (update_request env websiteId' updates opts) = Inr r"
    and "json r = Inr data"
    and "\<not> (200 \<le> status r \<and> status r \<le> 299)"
    and "get_prop data ''error'' = Inr e"
  shows "updateWebsiteMaster env websiteId' updates opts reqs =
    (reqs @ [update_request env websiteId' updates opts],
     Inr \<lparr>success = False, message = None, websiteId = Some websiteId', website = None,
          error = Some (if truthy e then e
                        else JStr (''HTTP '' @ show_nat (status r) @ '': '' @ statusText r))\<rparr>)"
  using update_when_rejected [OF assms(1,2) _ assms(4)] assms(3)
  by (simp add: ok_def status_line_def)

theorem rejected_update_error_witness:
  "snd (updateWebsiteMaster
       (browser_host ''https://example.com''
          (answers 404 ''Not Found'' (Inr (JObj [(''error'', JStr ''not found'')]))))
       (JStr ''abc123'') (JObj []) no_options [])
     = Inr \<lparr>success = False, message = None, websiteId = Some (JStr ''abc123''), website = None,
            error = Some (JStr ''not found'')\<rparr>"
  using rejected_update_error [of
      "browser_host ''https://example.com''
          (answers 404 ''Not Found'' (Inr (JObj [(''error'', JStr ''not found'')])))"
      "JStr ''abc123''" "JObj []" no_options
      "\<lparr>status = 404, statusText = ''Not Found'', json = Inr (JObj [(''error'', JStr ''not found'')])\<rparr>"
      "JObj [(''error'', JStr ''not found'')]" "JStr ''not found''" "[]"]
  by (simp add: browser_host_def answers_def)

subsection \<open>C4\<close>

text \<open>
  C4, as stated, fails: on a 500 response with an empty body the body is parsed before the
  status is looked at, parsing throws, and the error of the result is the message of that
  exception, in which \<^verbatim>\<open>500\<close> does not occur.
\<close>

theorem empty_body_counterexample:
  "snd (updateWebsiteMaster
       (browser_host ''https://example.com''
          (answers 500 ''Internal Server Error'' json_of_empty_body))
       (JStr ''abc123'') (JObj []) no_options [])
     = Inr \<lparr>success = False, message = None, websiteId = Some (JStr ''abc123''), website = None,
            error = Some (JStr ''Unexpected end of JSON input'')\<rparr>
   \<and> \<not> str_includes ''Unexpected end of JSON input'' ''500''"
  by (simp add: update_defs io_defs host_defs json_of_empty_body_def caught_message_def)

text \<open>
  C4, amended. On a 500 response whose body does not parse, the result is a failure with
  the identifier passed in, and its error is the message of the exception that parsing
  threw (the fallback string if the thrown value is no \<^verbatim>\<open>Error\<close>). The status string,
  in which \<^verbatim>\<open>500\<close> occurs, is the error when the body of the 500 response parses and
  has no truthy \<^verbatim>\<open>error\<close> field.
\<close>

theorem server_error_result:
  assumes "fetch env (update_request env websiteId' updates opts) = Inr r"
    and "status r = 500"
  shows "(\<forall>t. json r = Inl t \<longrightarrow>
       updateWebsiteMaster env websiteId' updates opts reqs =
         (reqs @ [update_request env websiteId' updates opts],
          Inr \<lparr>success = False, message = None, websiteId = Some websiteId', website = None,
               error = Some (JStr (case t of ErrorInstance m \<Rightarrow> m
                                     | NonError v \<Rightarrow> ''Unknown error occurred''))\<rparr>))
     \<and> (\<forall>data e. json r = Inr data \<and> get_prop data ''error'' = Inr e \<and> \<not> truthy e \<longrightarrow>
       updateWebsiteMaster env websiteId' updates opts reqs =
         (reqs @ [update_request env websiteId' updates opts],
          Inr \<lparr>success = False, message = None, websiteId = Some websiteId', website = None,
               error = Some (JStr (''HTTP 500: '' @ statusText r))\<rparr>)
       \<and> str_includes (''HTTP 500: '' @ statusText r) ''500'')"
proof (intro conjI allI impI)
  fix t
  assume "json r = Inl t"
  from update_when_json_throws [OF assms(1) this]
  show "updateWebsiteMaster env websiteId' updates opts reqs =
         (reqs @ [update_request env websiteId' updates opts],
          Inr \<lparr>success = False, message = None, websiteId = Some websiteId', website = None,
               error = Some (JStr (case t of ErrorInstance m \<Rightarrow> m
                                     | NonError v \<Rightarrow> ''Unknown error occurred''))\<rparr>)"
    by (simp add: caught_message_def)
next
  fix data e
  assume h: "json r = Inr data \<and> get_prop data ''error'' = Inr e \<and> \<not> truthy e"
  have line: "status_line r = ''HTTP 500: '' @ statusText r"
    using assms(2) by (simp add: status_line_def show_nat_500)
  have "\<not> ok r"
    using assms(2) by (simp add: ok_def)
  from update_when_rejected [OF assms(1) _ this, of data e reqs] h line
  show "updateWebsiteMaster env websiteId' updates opts reqs =
         (reqs @ [update_request env websiteId' updates opts],
          Inr \<lparr>success = False, message = None, websiteId = Some websiteId', website = None,
               error = Some (JStr (''HTTP 500: '' @ statusText r))\<rparr>)"
    by simp
  from status_line_500 [OF assms(2)] line
  show "str_includes (''HTTP 500: '' @ statusText r) ''500''"
    by simp
qed

theorem server_error_result_witness:
  "snd (updateWebsiteMaster
       (browser_host ''https://example.com''
          (answers 500 ''Internal Server Error'' (Inl (ErrorInstance ''Unexpected token < in JSON''))))
       (JStr ''abc123'') (JObj []) no_options [])
     = Inr \<lparr>success = False, message = None, websiteId = Some (JStr ''abc123''), website = None,
            error = Some (JStr ''Unexpected token < in JSON'')\<rparr>
   \<and> snd (updateWebsiteMaster
       (browser_host ''https://example.com''
          (answers 500 ''Internal Server Error'' (Inr (JObj []))))
       (JStr ''abc123'') (JObj []) no_options [])
     = Inr \<lparr>success = False, message = None, websiteId = Some (JStr ''abc123''), website = None,
            error = Some (JStr ''HTTP 500: Internal Server Error'')\<rparr>
   \<and> str_includes ''HTTP 500: Internal Server Error'' ''500''"
  using server_error_result [of
      "browser_host ''https://example.com''
          (answers 500 ''Internal Server Error'' (Inl (ErrorInstance ''Unexpected token < in JSON'')))"
      "JStr ''abc123''" "JObj []" no_options
      "\<lparr>status = 500, statusText = ''Internal Server Error'',
        json = Inl (ErrorInstance ''Unexpected token < in JSON'')\<rparr>" "[]"]
    server_error_result [of
      "browser_host ''https://example.com''
          (answers 500 ''Internal Server Error'' (Inr (JObj [])))"
      "JStr ''abc123''" "JObj []" no_options
      "\<lparr>status = 500, statusText = ''Internal Server Error'', json = Inr (JObj [])\<rparr>" "[]"]
  by (simp add: browser_host_def answers_def)

subsection \<open>C5\<close>

text \<open>
  C5, as stated, fails: the text \<^verbatim>\<open>null\<close> parses as JSON, and on a 200 response with that
  body reading the \<^verbatim>\<open>message\<close> field throws, so the result is a failure.
\<close>

theorem null_body_counterexample:
  "map_sum id success (snd (updateWebsiteMaster
       (browser_host ''https://example.com'' (answers 200 ''OK'' (Inr JNull)))
       (JStr ''abc123'') (JObj []) no_options []))
     = Inr False"
  by (simp add: update_defs io_defs host_defs ok_def type_error_read_def)

text \<open>
  C5, amended. When the status is in 200 to 299 and the body parses to a value from which
  fields can be read (every JSON value but \<^verbatim>\<open>null\<close>), the result is a success whose
  message is the \<^verbatim>\<open>message\<close> field of the body if that is truthy and the fixed string
  otherwise, whose identifier is the \<^verbatim>\<open>websiteId\<close> field of the body and whose record is
  the \<^verbatim>\<open>website\<close> field of the body, each \<^verbatim>\<open>undefined\<close> if the body has no such field.
\<close>

theorem accepted_update_result:
  assumes "fetch env (update_request env websiteId' updates opts) = Inr r"
    and "json r = Inr data"
    and "200 \<le> status r \<and> status r \<le> 299"
    and "data \<noteq> JNull" and "data \<noteq> JUndefined"
  shows "\<exists>m i w. get_prop data ''message'' = Inr m \<and> get_prop data ''websiteId'' = Inr i
      \<and> get_prop data ''website'' = Inr w
      \<and> updateWebsiteMaster env websiteId' updates opts reqs =
        (reqs @ [update_request env websiteId' updates opts],
         Inr \<lparr>success = True,
              message = Some (if truthy m then m else JStr ''Website updated successfully''),
              websiteId = Some i, website = Some w, error = None\<rparr>)"
proof -
  obtain m i w where reads: "get_prop data ''message'' = Inr m"
      "get_prop data ''websiteId'' = Inr i" "get_prop data ''website'' = Inr w"
    using get_prop_returns [OF assms(4,5)] by metis
  have "ok r"
    using assms(3) by (simp add: ok_def)
  from update_when_accepted [OF assms(1,2) this reads] reads
  show ?thesis by blast
qed

theorem accepted_update_result_witness:
  "snd (updateWebsiteMaster
       (browser_host ''https://example.com''
          (answers 200 ''OK''
             (Inr (JObj [(''message'', JStr ''ok''), (''websiteId'', JStr ''xyz''),
                         (''website'', JObj [(''a'', JNum 1)])]))))
       (JStr ''abc123'') (JObj []) no_options [])
     = Inr \<lparr>success = True, message = Some (JStr ''ok''), websiteId = Some (JStr ''xyz''),
            website = Some (JObj [(''a'', JNum 1)]), error = None\<rparr>"
  using accepted_update_result [of
      "browser_host ''https://example.com''
          (answers 200 ''OK''
             (Inr (JObj [(''message'', JStr ''ok''), (''websiteId'', JStr ''xyz''),
                         (''website'', JObj [(''a'', JNum 1)])])))"
      "JStr ''abc123''" "JObj []" no_options
      "\<lparr>status = 200, statusText = ''OK'',
        json = Inr (JObj [(''message'', JStr ''ok''), (''websiteId'', JStr ''xyz''),
                          (''website'', JObj [(''a'', JNum 1)])])\<rparr>"
      "JObj [(''message'', JStr ''ok''), (''websiteId'', JStr ''xyz''),
             (''website'', JObj [(''a'', JNum 1)])]" "[]"]
  by (auto simp add: browser_host_def answers_def)

subsection \<open>C6\<close>

text \<open>
  C6, as stated, fails: the test of the \<^verbatim>\<open>catch\<close> block is \<^verbatim>\<open>instanceof Error\<close>, not
  the presence of a message. A thrown object that carries the message \<^verbatim>\<open>ECONNREFUSED\<close>
  without being an \<^verbatim>\<open>Error\<close> gives the fallback string.
\<close>

theorem thrown_object_counterexample:
  "snd (updateWebsiteMaster
       (browser_host ''https://example.com''
          (throws (NonError (JObj [(''message'', JStr ''ECONNREFUSED'')]))))
       (JStr ''abc123'') (JObj []) no_options [])
     = Inr \<lparr>success = False, message = None, websiteId = Some (JStr ''abc123''), website = None,
            error = Some (JStr ''Unknown error occurred'')\<rparr>
   \<and> spec_caught_message ''Unknown error occurred''
       (NonError (JObj [(''message'', JStr ''ECONNREFUSED'')]))
     = ''ECONNREFUSED''"
  by (simp add: update_defs io_defs host_defs caught_message_def spec_caught_message_def
      carried_message_def)

text \<open>
  C6, amended. When \<open>fetch\<close> or the parsing of the response body throws, the result is a
  failure with the identifier passed in; its error is the message of the thrown value if
  that is an \<^verbatim>\<open>Error\<close> instance, and the fixed fallback string if it is not.
\<close>

theorem caught_update_error:
  assumes "fetch env (update_request env websiteId' updates opts) = Inl t
     \<or> (\<exists>r. fetch env (update_request env websiteId' updates opts) = Inr r \<and> json r = Inl t)"
  shows "updateWebsiteMaster env websiteId' updates opts reqs =
    (reqs @ [update_request env websiteId' updates opts],
     Inr \<lparr>success = False, message = None, websiteId = Some websiteId', website = None,
          error = Some (JStr (case t of ErrorInstance m \<Rightarrow> m
                                | NonError v \<Rightarrow> ''Unknown error occurred''))\<rparr>)"
  using assms update_when_fetch_throws [of env websiteId' updates opts t reqs]
    update_when_json_throws [of env websiteId' updates opts _ t reqs]
  by (auto simp add: caught_message_def)

theorem caught_update_error_witness:
  "snd (updateWebsiteMaster
       (browser_host ''https://example.com'' (throws (ErrorInstance ''ECONNREFUSED'')))
       (JStr ''abc123'') (JObj []) no_options [])
     = Inr \<lparr>success = False, message = None, websiteId = Some (JStr ''abc123''), website = None,
            error = Some (JStr ''ECONNREFUSED'')\<rparr>"
  using caught_update_error [of
      "browser_host ''https://example.com'' (throws (ErrorInstance ''ECONNREFUSED''))"
      "JStr ''abc123''" "JObj []" no_options "ErrorInstance ''ECONNREFUSED''" "[]"]
  by (simp add: browser_host_def throws_def)

subsection \<open>C7\<close>

text \<open>
  C7, as stated, fails: a file whose text is \<^verbatim>\<open>null\<close> is read and parses, and the parsed
  document has no \<^verbatim>\<open>_id\<close> field, but reading the field from \<^verbatim>\<open>null\<close> throws inside the
  \<^verbatim>\<open>try\<close> block. The result is the failure of the \<^verbatim>\<open>catch\<close> block, whose error is the
  message of that \<^verbatim>\<open>TypeError\<close> and not the fixed message. No request is sent.
\<close>

theorem null_document_counterexample:
  "updateWebsiteMasterFromFile
     (server_host None (answers 200 ''OK'' (Inr (JObj []))) ''null'' JNull)
     None no_options []
   = ([],
      Inr \<lparr>success = False, message = None, websiteId = None, website = None,
           error = Some (JStr (''Cannot read properties of null (reading '' @
             quote @ ''_id'' @ quote @ '')''))\<rparr>)
   \<and> JStr (''Cannot read properties of null (reading '' @ quote @ ''_id'' @ quote @ '')'')
     \<noteq> JStr (''websiteData.json does not contain _id field. '' @
          ''Make sure the website has been saved to the database first.'')"
  by (simp add: updateWebsiteMasterFromFile_def from_file_try_def io_defs host_defs
      type_error_read_def caught_message_def quote_def)

text \<open>
  C7, amended. When the file is read and parsed to a value other than \<^verbatim>\<open>null\<close>, and the
  parsed document has no \<^verbatim>\<open>_id\<close> field (reading it gives \<^verbatim>\<open>undefined\<close>),
  \<open>updateWebsiteMasterFromFile\<close> resolves to the failure with the fixed message and without
  an identifier, and hands no request to \<open>fetch\<close>: the list of requests is the one it
  started from, which no call of \<open>updateWebsiteMaster\<close> leaves unchanged.
\<close>

theorem from_file_without_id:
  assumes "import_fs env = Inr readFile"
    and "readFile (case websiteDataPath of None \<Rightarrow> ''./src/data/websiteData.json'' | Some p \<Rightarrow> p)
           = Inr websiteDataContent"
    and "JSON_parse env websiteDataContent = Inr websiteMaster"
    and "get_prop websiteMaster ''_id'' = Inr JUndefined"
    and "websiteMaster \<noteq> JNull"
  shows "updateWebsiteMasterFromFile env websiteDataPath opts reqs =
      (reqs,
       Inr \<lparr>success = False, message = None, websiteId = None, website = None,
            error = Some (JStr (''websiteData.json does not contain _id field. '' @
              ''Make sure the website has been saved to the database first.''))\<rparr>)
    \<and> (\<forall>i d. fst (updateWebsiteMaster env i d opts reqs) \<noteq> reqs)"
proof
  have "readFile (case websiteDataPath of None \<Rightarrow> default_path | Some p \<Rightarrow> p)
      = Inr websiteDataContent"
    using assms(2) unfolding default_path_def .
  from from_file_when_parsed [OF assms(1) this assms(3,4)]
  show "updateWebsiteMasterFromFile env websiteDataPath opts reqs =
      (reqs,
       Inr \<lparr>success = False, message = None, websiteId = None, website = None,
            error = Some (JStr (''websiteData.json does not contain _id field. '' @
              ''Make sure the website has been saved to the database first.''))\<rparr>)"
    by (simp add: missing_id_def)
next
  show "\<forall>i d. fst (updateWebsiteMaster env i d opts reqs) \<noteq> reqs"
    by (simp add: update_issues_one_request)
qed

theorem from_file_without_id_witness:
  "updateWebsiteMasterFromFile
     (server_host None (answers 200 ''OK'' (Inr (JObj [])))
        text_without_id doc_without_id)
     None no_options []
   = ([],
      Inr \<lparr>success = False, message = None, websiteId = None, website = None,
           error = Some (JStr (''websiteData.json does not contain _id field. '' @
             ''Make sure the website has been saved to the database first.''))\<rparr>)"
  using from_file_without_id [of
      "server_host None (answers 200 ''OK'' (Inr (JObj [])))
        text_without_id doc_without_id"
      "one_file default_path text_without_id" None
      text_without_id doc_without_id no_options "[]"]
  by (simp add: server_host_def one_file_def parse_known_def default_path_def doc_without_id_def)

subsection \<open>C8\<close>

text \<open>
  C8, as stated, fails: a document whose \<^verbatim>\<open>_id\<close> field is the empty string contains the
  field, and \<open>updateWebsiteMasterFromFile\<close> returns the failure for a missing identifier
  without a request, where \<open>updateWebsiteMaster\<close> on that identifier and document sends the
  request and here succeeds.
\<close>

theorem empty_id_counterexample:
  "updateWebsiteMasterFromFile
     (server_host None (answers 200 ''OK'' (Inr (JObj [])))
        text_with_empty_id doc_with_empty_id)
     None no_options []
   = ([], Inr missing_id)
   \<and> map_sum id success (snd (updateWebsiteMaster
     (server_host None (answers 200 ''OK'' (Inr (JObj [])))
        text_with_empty_id doc_with_empty_id)
     (JStr '''') doc_with_empty_id no_options []))
   = Inr True
   \<and> \<not> success missing_id"
  by (simp add: updateWebsiteMasterFromFile_def from_file_try_def update_defs io_defs host_defs
      ok_def missing_id_def doc_with_empty_id_def)

text \<open>
  C8, amended. When the file is read and parsed and the \<^verbatim>\<open>_id\<close> field of the parsed
  document is truthy (a non-empty string, for one), \<open>updateWebsiteMasterFromFile\<close> is the
  call of \<open>updateWebsiteMaster\<close> with that field as identifier, the whole document as
  payload and the same options: the same requests and the same result.
\<close>

theorem from_file_delegates:
  assumes "import_fs env = Inr readFile"
    and "readFile (case websiteDataPath of None \<Rightarrow> ''./src/data/websiteData.json'' | Some p \<Rightarrow> p)
           = Inr websiteDataContent"
    and "JSON_parse env websiteDataContent = Inr websiteMaster"
    and "get_prop websiteMaster ''_id'' = Inr i"
    and "truthy i"
  shows "updateWebsiteMasterFromFile env websiteDataPath opts reqs =
      updateWebsiteMaster env i websiteMaster opts reqs"
proof -
  have "readFile (case websiteDataPath of None \<Rightarrow> default_path | Some p \<Rightarrow> p)
      = Inr websiteDataContent"
    using assms(2) unfolding default_path_def .
  from from_file_when_parsed [OF assms(1) this assms(3,4)] assms(5)
  show ?thesis by simp
qed

theorem from_file_delegates_witness:
  "updateWebsiteMasterFromFile
     (server_host (Some ''https://app.example.com'') (answers 200 ''OK'' (Inr (JObj [])))
        text_with_id doc_with_id)
     None no_options []
   = ([\<lparr>url = ''https://app.example.com/api/userActions/update-website'',
        http_method = ''PUT'',
        headers = [(''Content-Type'', ''application/json'')],
        body = Some (JObj
          [(''websiteId'', JStr ''abc123''),
           (''updates'', JObj [(''_id'', JStr ''abc123''), (''websiteName'', JStr ''Demo'')]),
           (''sendEmailNotification'', JBool True)])\<rparr>],
      Inr \<lparr>success = True, message = Some (JStr ''Website updated successfully''),
           websiteId = Some JUndefined, website = Some JUndefined, error = None\<rparr>)"
  using from_file_delegates [of
      "server_host (Some ''https://app.example.com'') (answers 200 ''OK'' (Inr (JObj [])))
        text_with_id doc_with_id"
      "one_file default_path text_with_id" None text_with_id doc_with_id
      "JStr ''abc123''" no_options "[]"]
  by (simp add: update_defs io_defs host_defs request_defs ok_def js_or_def doc_with_id_def)

subsection \<open>C9\<close>

text \<open>
  C9. For an identifier that is a string and a payload that is an object, the one request of
  \<open>updateWebsiteMaster\<close> is a PUT with the header \<^verbatim>\<open>Content-Type: application/json\<close>, and
  its body is the JSON object with the three fields \<^verbatim>\<open>websiteId\<close>, \<^verbatim>\<open>updates\<close> and
  \<^verbatim>\<open>sendEmailNotification\<close>, and no other; the last is \<^verbatim>\<open>true\<close> when the option is
  not set and the value of the option otherwise.
\<close>

theorem update_request_shape:
  "\<exists>req props.
     fst (updateWebsiteMaster env (JStr websiteId') (JObj updates) opts reqs) = reqs @ [req]
     \<and> http_method req = ''PUT''
     \<and> headers req = [(''Content-Type'', ''application/json'')]
     \<and> body req = Some (JObj props)
     \<and> map fst props = [''websiteId'', ''updates'', ''sendEmailNotification'']
     \<and> map_of props ''websiteId'' = Some (JStr websiteId')
     \<and> map_of props ''updates'' = JSON_stringify (JObj updates)
     \<and> map_of props ''sendEmailNotification''
         = Some (JBool (case sendEmailNotification opts of None \<Rightarrow> True | Some b \<Rightarrow> b))
     \<and> (sendEmailNotification opts = None
         \<longrightarrow> map_of props ''sendEmailNotification'' = Some (JBool True))"
proof -
  let ?req = "update_request env (JStr websiteId') (JObj updates) opts"
  let ?props = "[(''websiteId'', JStr websiteId'),
                  (''updates'', JObj (stringify_props updates)),
                  (''sendEmailNotification'',
                   JBool (case sendEmailNotification opts of None \<Rightarrow> True | Some b \<Rightarrow> b))]"
  have "body ?req = Some (JObj ?props)"
    by (simp add: update_request_def)
  moreover have "http_method ?req = ''PUT''"
    and "headers ?req = [(''Content-Type'', ''application/json'')]"
    by (simp_all add: update_request_def)
  moreover have "fst (updateWebsiteMaster env (JStr websiteId') (JObj updates) opts reqs)
      = reqs @ [?req]"
    by (rule update_issues_one_request)
  ultimately show ?thesis
    by (intro exI [of _ ?req] exI [of _ ?props]) simp
qed

theorem update_request_shape_witness:
  "\<exists>req props.
     fst (updateWebsiteMaster (browser_host ''https://example.com'' (throws (NonError JNull)))
       (JStr ''abc123'') (JObj [(''websiteName'', JStr ''Demo''), (''draft'', JUndefined)])
       no_options []) = [req]
     \<and> http_method req = ''PUT''
     \<and> headers req = [(''Content-Type'', ''application/json'')]
     \<and> body req = Some (JObj props)
     \<and> map fst props = [''websiteId'', ''updates'', ''sendEmailNotification'']
     \<and> map_of props ''websiteId'' = Some (JStr ''abc123'')
     \<and> map_of props ''updates'' = Some (JObj [(''websiteName'', JStr ''Demo'')])
     \<and> map_of props ''sendEmailNotification'' = Some (JBool True)"
  using update_request_shape [of "browser_host ''https://example.com'' (throws (NonError JNull))"
      "''abc123''" "[(''websiteName'', JStr ''Demo''), (''draft'', JUndefined)]" no_options "[]"]
  by (simp add: no_options_def)

subsection \<open>C10\<close>

text \<open>
  C10. When the status is outside 200 to 299 and the parsed body is an object whose
  \<^verbatim>\<open>error\<close> field holds a falsy value, the error of the result is the string made of status
  code and status text, not the value of the field.
\<close>

theorem falsy_error_field:
  assumes "fetch env (update_request env websiteId' updates opts) = Inr r"
    and "json r = Inr (JObj props)"
    and "\<not> (200 \<le> status r \<and> status r \<le> 299)"
    and "map_of props ''error'' = Some v"
    and "\<not> truthy v"
  shows "updateWebsiteMaster env websiteId' updates opts reqs =
    (reqs @ [update_request env websiteId' updates opts],
     Inr \<lparr>success = False, message = None, websiteId = Some websiteId', website = None,
          error = Some (JStr (''HTTP '' @ show_nat (status r) @ '': '' @ statusText r))\<rparr>)
    \<and> JStr (''HTTP '' @ show_nat (status r) @ '': '' @ statusText r) \<noteq> v"
proof -
  have "get_prop (JObj props) ''error'' = Inr v"
    using assms(4) by simp
  moreover have "\<not> ok r"
    using assms(3) by (simp add: ok_def)
  ultimately have "updateWebsiteMaster env websiteId' updates opts reqs =
    (reqs @ [update_request env websiteId' updates opts],
     Inr \<lparr>success = False, message = None, websiteId = Some websiteId', website = None,
          error = Some (if truthy v then v else JStr (status_line r))\<rparr>)"
    using update_when_rejected [OF assms(1,2)] by blast
  moreover have "JStr (''HTTP '' @ show_nat (status r) @ '': '' @ statusText r) \<noteq> v"
    using assms(5) by auto
  ultimately show ?thesis
    using assms(5) by (simp add: status_line_def)
qed

theorem falsy_error_field_witness:
  "snd (updateWebsiteMaster
       (browser_host ''https://example.com''
          (answers 503 ''Service Unavailable'' (Inr (JObj [(''error'', JNull)]))))
       (JStr ''abc123'') (JObj []) no_options [])
     = Inr \<lparr>success = False, message = None, websiteId = Some (JStr ''abc123''), website = None,
            error = Some (JStr ''HTTP 503: Service Unavailable'')\<rparr>"
  using falsy_error_field [of
      "browser_host ''https://example.com''
          (answers 503 ''Service Unavailable'' (Inr (JObj [(''error'', JNull)])))"
      "JStr ''abc123''" "JObj []" no_options
      "\<lparr>status = 503, statusText = ''Service Unavailable'', json = Inr (JObj [(''error'', JNull)])\<rparr>"
      "[(''error'', JNull)]" JNull "[]"]
  by (simp add: browser_host_def answers_def show_nat.simps digit_char_def)

end
